theory Spec2Isabelle
  imports Main "HOL-Library.AList"
begin

section \<open>Go values\<close>

text \<open>
  A Go \<^verbatim>\<open>error\<close> is identified by its message (\<^verbatim>\<open>errors.New(msg)\<close>, or the text of an
  error the operating system reports); the nil error is \<open>None\<close> of \<open>error option\<close>.
  A call either returns or ends in a run-time panic (a failed type assertion, a method
  call on a nil interface, an assignment into a nil map).
\<close>

datatype error = Error string

datatype 'a go = Panic | Return 'a

text \<open>
  Values of type \<^verbatim>\<open>interface{}\<close> as the JSON decoder produces them. A
  \<^verbatim>\<open>map[string]interface{}\<close> is an association list with distinct keys; the nil map is
  \<open>None\<close> of \<open>gomap\<close>. Reading a nil map gives the zero value, as reading a missing key does.
\<close>

datatype iface =
    NilV
  | Str string
  | Num int
  | Boolean bool
  | Arr "iface list"
  | Obj "(string \<times> iface) list"

type_synonym gomap = "(string \<times> iface) list option"

definition index :: "(string \<times> iface) list \<Rightarrow> string \<Rightarrow> iface" where
  "index m k = (case map_of m k of None \<Rightarrow> NilV | Some v \<Rightarrow> v)"

definition gomap_index :: "gomap \<Rightarrow> string \<Rightarrow> iface" where
  "gomap_index d k = (case d of None \<Rightarrow> NilV | Some m \<Rightarrow> index m k)"

text \<open>The type assertions \<^verbatim>\<open>v.(map[string]interface{})\<close> and \<^verbatim>\<open>v.(string)\<close>.\<close>

definition assert_map :: "iface \<Rightarrow> (string \<times> iface) list go" where
  "assert_map v = (case v of Obj m \<Rightarrow> Return m | _ \<Rightarrow> Panic)"

definition assert_string :: "iface \<Rightarrow> string go" where
  "assert_string v = (case v of Str s \<Rightarrow> Return s | _ \<Rightarrow> Panic)"

text \<open>\<^verbatim>\<open>strconv.Itoa\<close>: the decimal text of an integer.\<close>

fun digits :: "nat \<Rightarrow> string" where
  "digits n =
     (if n < 10 then [''0123456789'' ! n]
      else digits (n div 10) @ [''0123456789'' ! (n mod 10)])"

definition Itoa :: "int \<Rightarrow> string" where
  "Itoa i = (if i < 0 then ''-'' @ digits (nat (- i)) else digits (nat i))"


section \<open>The operating system and the collaborators outside the sources\<close>

text \<open>
  \<open>writer\<close> is what \<^verbatim>\<open>stdInWriter\<close> can hold: the pipe of \<^verbatim>\<open>Cmd.StdinPipe\<close>, or the
  \<^verbatim>\<open>*os.File\<close> of \<^verbatim>\<open>pty.Start\<close>, which is a nil pointer when the start failed.
  \<open>sink\<close> is a target of the multiplexed output writer.
\<close>

datatype writer = PipeWriter nat | PtyMaster "nat option"

datatype sink = OsStdout | ConsoleBufferSink | WSManagerSink

record SysProcAttr =
  Setctty :: bool
  Setsid :: bool

text \<open>
  \<^verbatim>\<open>exec.Cmd\<close>, with the fields the sources set. \<open>Process\<close> is the pid of the
  \<^verbatim>\<open>*os.Process\<close>; it is nil until the command has been started successfully.
\<close>

record Cmd =
  Args :: "string list"
  Dir :: string
  Env :: "string list"
  Stdout :: "sink list option"
  Stderr :: "sink list option"
  SysProcAttr :: "SysProcAttr option"
  Process :: "int option"

definition exec_Command :: "string \<Rightarrow> string list \<Rightarrow> Cmd" where
  "exec_Command name arg =
     \<lparr>Args = name # arg, Dir = [], Env = [], Stdout = None, Stderr = None,
      SysProcAttr = None, Process = None\<rparr>"

text \<open>
  Effects on the outside, in the order the code performs them. \<open>GoWait\<close> is the start
  of the goroutine that waits for the process and then signals the wait group;
  \<open>GoCopyWait\<close> is the start of the goroutine of the terminal variant, which first copies
  the terminal's output to the multiplexed writer. What the goroutines do later is not
  part of the sequential model.
\<close>

datatype event =
    ProcessKill int
  | ProcessRelease int
  | WriteString writer string
  | WriteFileCall string string nat
  | MkdirAll string nat
  | StartProcess Cmd
  | PtyStart Cmd
  | GoWait
  | GoCopyWait "sink list" "nat option"
  | LogDebug string
  | LogError string "error option"
  | SaveCall string

text \<open>
  The answers of the operating system and of the packages that are not in the
  sources (\<^verbatim>\<open>config\<close>, the package function \<^verbatim>\<open>Save\<close>), and the trace of effects.
  \<open>findProcess pid\<close>: \<^verbatim>\<open>os.FindProcess\<close> returns a process and no error;
  \<open>signal0 pid\<close>: \<^verbatim>\<open>process.Signal(syscall.Signal(0))\<close> returns nil.
  The statements below hold for every world, so for every answer.
\<close>

record world =
  findProcess :: "int \<Rightarrow> bool"
  signal0 :: "int \<Rightarrow> bool"
  killResult :: "int \<Rightarrow> error option"
  writeStringResult :: "writer \<Rightarrow> string \<Rightarrow> error option"
  writeFileResult :: "string \<Rightarrow> string \<Rightarrow> nat \<Rightarrow> error option"
  environ :: "string list"
  stdinPipe :: "error + nat"
  startProcess :: "Cmd \<Rightarrow> error + int"
  ptyStart :: "Cmd \<Rightarrow> error + nat \<times> int"
  configGet :: "string \<Rightarrow> string"
  saveResult :: "string \<Rightarrow> error option"
  trace :: "event list"

definition emit :: "event \<Rightarrow> world \<Rightarrow> world" where
  "emit ev w = w\<lparr>trace := trace w @ [ev]\<rparr>"


section \<open>Environments (environments/standard.go, environments/tty.go)\<close>

text \<open>
  Modelled from the spec: \<^verbatim>\<open>utils.Cache\<close> and \<^verbatim>\<open>utils.WebSocketManager\<close> are not in the
  sources. The console buffer is kept as the sequence of the writes it received, the
  hub as the list of its registered connections. \<open>wait\<close> is the counter of the
  \<^verbatim>\<open>sync.WaitGroup\<close>. The struct \<^verbatim>\<open>tty\<close> declares the same six fields as \<^verbatim>\<open>standard\<close>.
\<close>

record standard =
  RootDirectory :: string
  ConsoleBuffer :: "string list"
  WSManager :: "nat list"
  mainProcess :: "Cmd option"
  stdInWriter :: "writer option"
  wait :: nat

type_synonym tty = standard

subsection \<open>standard\<close>

definition standard_IsRunning :: "standard \<Rightarrow> world \<Rightarrow> bool" where
  "standard_IsRunning s w =
     (case mainProcess s of
        None \<Rightarrow> False
      | Some c \<Rightarrow>
          (case Process c of
             None \<Rightarrow> False
           | Some pid \<Rightarrow>
               (if \<not> findProcess w pid then False
                else if \<not> signal0 w pid then False
                else True)))"

definition standard_createWrapper :: "standard \<Rightarrow> world \<Rightarrow> sink list" where
  "standard_createWrapper s w =
     (if configGet w ''forward'' = ''true''
      then [OsStdout, ConsoleBufferSink, WSManagerSink]
      else [ConsoleBufferSink, WSManagerSink])"

definition standard_ExecuteAsync ::
  "string \<Rightarrow> string list \<Rightarrow> standard \<Rightarrow> world \<Rightarrow> (error option \<times> standard \<times> world) go" where
  "standard_ExecuteAsync cmd args s w =
     (if standard_IsRunning s w then
        (case mainProcess s of
           None \<Rightarrow> Panic
         | Some c \<Rightarrow>
             (case Process c of
                None \<Rightarrow> Panic
              | Some pid \<Rightarrow>
                  Return (Some (Error (''A process is already running ('' @ Itoa pid @ '')'')),
                          s, w)))
      else
        (let wrapper = standard_createWrapper s w;
             c = (exec_Command cmd args)
                   \<lparr>Dir := RootDirectory s,
                    Env := environ w @ [''HOME='' @ RootDirectory s],
                    Stdout := Some wrapper, Stderr := Some wrapper\<rparr>;
             pipe = (case stdinPipe w of Inl e \<Rightarrow> None | Inr fd \<Rightarrow> Some (PipeWriter fd));
             perr = (case stdinPipe w of Inl e \<Rightarrow> Some e | Inr fd \<Rightarrow> None);
             w1 = (if perr \<noteq> None then emit (LogError ''Error starting process'' perr) w
                   else w);
             proc = (case startProcess w1 c of Inl e \<Rightarrow> None | Inr pid \<Rightarrow> Some pid);
             err = (case startProcess w1 c of Inl e \<Rightarrow> Some e | Inr pid \<Rightarrow> None);
             s1 = s\<lparr>mainProcess := Some (c\<lparr>Process := proc\<rparr>),
                    stdInWriter := pipe, wait := 1\<rparr>;
             w2 = emit GoWait (emit (StartProcess c) w1);
             w3 = (if err \<noteq> None \<and> err \<noteq> Some (Error ''exit status 1'')
                   then emit (LogError ''Error starting process'' err) w2 else w2)
         in Return (err, s1, w3)))"

definition standard_ExecuteInMainProcess ::
  "string \<Rightarrow> standard \<Rightarrow> world \<Rightarrow> (error option \<times> standard \<times> world) go" where
  "standard_ExecuteInMainProcess cmd s w =
     (if \<not> standard_IsRunning s w then
        Return (Some (Error ''Main process has not been started''), s, w)
      else
        (case stdInWriter s of
           None \<Rightarrow> Panic
         | Some stdIn \<Rightarrow>
             Return (writeStringResult w stdIn (cmd @ [CHR 0x0D]), s,
                     emit (WriteString stdIn (cmd @ [CHR 0x0D])) w)))"

definition standard_Kill ::
  "standard \<Rightarrow> world \<Rightarrow> (error option \<times> standard \<times> world) go" where
  "standard_Kill s w =
     (if \<not> standard_IsRunning s w then Return (None, s, w)
      else
        (case mainProcess s of
           None \<Rightarrow> Panic
         | Some c \<Rightarrow>
             (case Process c of
                None \<Rightarrow> Panic
              | Some pid \<Rightarrow>
                  Return (killResult w pid, s\<lparr>mainProcess := None\<rparr>,
                          emit (ProcessRelease pid) (emit (ProcessKill pid) w)))))"

definition standard_GetRootDirectory :: "standard \<Rightarrow> string" where
  "standard_GetRootDirectory s = RootDirectory s"

definition standard_DisplayToConsole :: "string \<Rightarrow> standard \<Rightarrow> standard" where
  "standard_DisplayToConsole msg s = s\<lparr>ConsoleBuffer := ConsoleBuffer s @ [msg]\<rparr>"

subsection \<open>tty\<close>

definition tty_IsRunning :: "tty \<Rightarrow> world \<Rightarrow> bool" where
  "tty_IsRunning s w =
     (case mainProcess s of
        None \<Rightarrow> False
      | Some c \<Rightarrow>
          (case Process c of
             None \<Rightarrow> False
           | Some pid \<Rightarrow>
               (if \<not> findProcess w pid then False
                else if \<not> signal0 w pid then False
                else True)))"

definition tty_createWrapper :: "tty \<Rightarrow> world \<Rightarrow> sink list" where
  "tty_createWrapper s w =
     (if configGet w ''forward'' = ''true''
      then [OsStdout, ConsoleBufferSink, WSManagerSink]
      else [ConsoleBufferSink, WSManagerSink])"

text \<open>
  \<^verbatim>\<open>pty.Start\<close> answers with the terminal's file and starts the command, or with a nil
  file and the error; the handle is stored before the start, so a failed start leaves
  the new command (without a process) in \<^verbatim>\<open>mainProcess\<close>.
\<close>

definition tty_ExecuteAsync ::
  "string \<Rightarrow> string list \<Rightarrow> tty \<Rightarrow> world \<Rightarrow> (error option \<times> tty \<times> world) go" where
  "tty_ExecuteAsync cmd args s w =
     (if tty_IsRunning s w then
        (case mainProcess s of
           None \<Rightarrow> Panic
         | Some c \<Rightarrow>
             (case Process c of
                None \<Rightarrow> Panic
              | Some pid \<Rightarrow>
                  Return (Some (Error (''A process is already running ('' @ Itoa pid @ '')'')),
                          s, w)))
      else
        (let wrapper = tty_createWrapper s w;
             process = (exec_Command cmd args)
                   \<lparr>Dir := RootDirectory s,
                    Env := environ w @ [''HOME='' @ RootDirectory s],
                    SysProcAttr := Some \<lparr>Setctty = True, Setsid = True\<rparr>\<rparr>;
             proc = (case ptyStart w process of Inl e \<Rightarrow> None | Inr (fd, pid) \<Rightarrow> Some pid);
             file = (case ptyStart w process of Inl e \<Rightarrow> None | Inr (fd, pid) \<Rightarrow> Some fd);
             err = (case ptyStart w process of Inl e \<Rightarrow> Some e | Inr (fd, pid) \<Rightarrow> None);
             s1 = s\<lparr>wait := 1, mainProcess := Some (process\<lparr>Process := proc\<rparr>),
                    stdInWriter := Some (PtyMaster file)\<rparr>;
             w1 = emit (GoCopyWait wrapper file) (emit (PtyStart process) w);
             w2 = (if err \<noteq> None then emit (LogError ''Error starting process'' err) w1
                   else w1)
         in Return (err, s1, w2)))"

definition tty_ExecuteInMainProcess ::
  "string \<Rightarrow> tty \<Rightarrow> world \<Rightarrow> (error option \<times> tty \<times> world) go" where
  "tty_ExecuteInMainProcess cmd s w =
     (if \<not> tty_IsRunning s w then
        Return (Some (Error ''Main process has not been started''), s, w)
      else
        (case stdInWriter s of
           None \<Rightarrow> Panic
         | Some stdIn \<Rightarrow>
             Return (writeStringResult w stdIn (cmd @ [CHR 0x0D]), s,
                     emit (WriteString stdIn (cmd @ [CHR 0x0D])) w)))"

definition tty_Kill :: "tty \<Rightarrow> world \<Rightarrow> (error option \<times> tty \<times> world) go" where
  "tty_Kill s w =
     (if \<not> tty_IsRunning s w then Return (None, s, w)
      else
        (case mainProcess s of
           None \<Rightarrow> Panic
         | Some c \<Rightarrow>
             (case Process c of
                None \<Rightarrow> Panic
              | Some pid \<Rightarrow>
                  Return (killResult w pid, s\<lparr>mainProcess := None\<rparr>,
                          emit (ProcessRelease pid) (emit (ProcessKill pid) w)))))"

definition tty_GetRootDirectory :: "tty \<Rightarrow> string" where
  "tty_GetRootDirectory s = RootDirectory s"

definition tty_DisplayToConsole :: "string \<Rightarrow> tty \<Rightarrow> tty" where
  "tty_DisplayToConsole msg s = s\<lparr>ConsoleBuffer := ConsoleBuffer s @ [msg]\<rparr>"

subsection \<open>The Environment interface\<close>

datatype Environment = StandardEnv standard | TtyEnv tty

definition in_standard ::
  "(error option \<times> standard \<times> world) go \<Rightarrow> (error option \<times> Environment \<times> world) go" where
  "in_standard r = (case r of Panic \<Rightarrow> Panic | Return (err, s, w) \<Rightarrow> Return (err, StandardEnv s, w))"

definition in_tty ::
  "(error option \<times> tty \<times> world) go \<Rightarrow> (error option \<times> Environment \<times> world) go" where
  "in_tty r = (case r of Panic \<Rightarrow> Panic | Return (err, s, w) \<Rightarrow> Return (err, TtyEnv s, w))"

fun Environment_IsRunning :: "Environment \<Rightarrow> world \<Rightarrow> bool" where
  "Environment_IsRunning (StandardEnv s) w = standard_IsRunning s w"
| "Environment_IsRunning (TtyEnv s) w = tty_IsRunning s w"


fun Environment_ExecuteInMainProcess ::
  "string \<Rightarrow> Environment \<Rightarrow> world \<Rightarrow> (error option \<times> Environment \<times> world) go" where
  "Environment_ExecuteInMainProcess cmd (StandardEnv s) w = in_standard (standard_ExecuteInMainProcess cmd s w)"
| "Environment_ExecuteInMainProcess cmd (TtyEnv s) w = in_tty (tty_ExecuteInMainProcess cmd s w)"

fun Environment_Kill :: "Environment \<Rightarrow> world \<Rightarrow> (error option \<times> Environment \<times> world) go" where
  "Environment_Kill (StandardEnv s) w = in_standard (standard_Kill s w)"
| "Environment_Kill (TtyEnv s) w = in_tty (tty_Kill s w)"

fun Environment_GetRootDirectory :: "Environment \<Rightarrow> string" where
  "Environment_GetRootDirectory (StandardEnv s) = standard_GetRootDirectory s"
| "Environment_GetRootDirectory (TtyEnv s) = tty_GetRootDirectory s"

fun Environment_DisplayToConsole :: "string \<Rightarrow> Environment \<Rightarrow> Environment" where
  "Environment_DisplayToConsole msg (StandardEnv s) = StandardEnv (standard_DisplayToConsole msg s)"
| "Environment_DisplayToConsole msg (TtyEnv s) = TtyEnv (tty_DisplayToConsole msg s)"

text \<open>The two handles of an environment, whichever variant it is.\<close>

fun Environment_mainProcess :: "Environment \<Rightarrow> Cmd option" where
  "Environment_mainProcess (StandardEnv s) = mainProcess s"
| "Environment_mainProcess (TtyEnv s) = mainProcess s"

fun Environment_stdInWriter :: "Environment \<Rightarrow> writer option" where
  "Environment_stdInWriter (StandardEnv s) = stdInWriter s"
| "Environment_stdInWriter (TtyEnv s) = stdInWriter s"


section \<open>Operations and the install pipeline\<close>

text \<open>
  An operation is the capability \<^verbatim>\<open>Run() error\<close>. The environment an operation holds a
  reference to is the program's own; the model passes it in and out explicitly.
\<close>

type_synonym Operation = "Environment \<Rightarrow> world \<Rightarrow> error option \<times> Environment \<times> world"

text \<open>
  \<^verbatim>\<open>WriteFile.Run\<close> (the operations package). \<^verbatim>\<open>utils.JoinPath\<close> is not in the sources and
  is a parameter. The result of \<^verbatim>\<open>ioutil.WriteFile\<close> is dropped; 420 is the mode 0644.
\<close>

record WriteFile =
  TargetFile :: string
  Text :: string

definition WriteFile_Run :: "(string \<Rightarrow> string \<Rightarrow> string) \<Rightarrow> WriteFile \<Rightarrow> Operation" where
  "WriteFile_Run JoinPath c e w =
     (let target = JoinPath (Environment_GetRootDirectory e) (TargetFile c);
          dropped = writeFileResult w target (Text c) 420
      in (None, e, emit (WriteFileCall target (Text c) 420) w))"

text \<open>
  Modelled from the spec: the package \<^verbatim>\<open>install\<close> (\<^verbatim>\<open>InstallSection\<close>,
  \<^verbatim>\<open>GenerateInstallProcess\<close> and the process it returns) is not in the sources. The spec
  describes the process as an ordered pipeline of operations that exposes "has more
  steps" and "run next step". The process is the list of the steps not yet run:
  \<open>HasNext\<close> holds while a step is left, \<open>RunNext\<close> runs the first step left and advances
  past it (on a process with no step left, which \<^verbatim>\<open>Install\<close> never asks for, it does
  nothing).
\<close>

type_synonym InstallProcess = "Operation list"

definition HasNext :: "InstallProcess \<Rightarrow> bool" where
  "HasNext process = (process \<noteq> [])"

definition RunNext ::
  "InstallProcess \<Rightarrow> Environment \<Rightarrow> world \<Rightarrow> error option \<times> InstallProcess \<times> Environment \<times> world" where
  "RunNext process e w =
     (case process of
        [] \<Rightarrow> (None, [], e, w)
      | operation # rest \<Rightarrow> (case operation e w of (err, e1, w1) \<Rightarrow> (err, rest, e1, w1)))"


section \<open>Programs (programs/program.go)\<close>

record Runtime =
  Stop :: string
  Pre :: "string list"
  Post :: "string list"
  Program :: string
  Arguments :: "string list"
  Enabled :: bool
  AutoStart :: bool

text \<open>
  \<open>'i\<close> is \<^verbatim>\<open>install.InstallSection\<close>. \<open>Environment\<close> is the interface value (\<open>None\<close> is
  nil), held by value: a method that changes the environment returns the program with
  the changed environment.
\<close>

record 'i programData =
  RunData :: Runtime
  InstallData :: 'i
  Environment :: "Environment option"
  Identifier :: string
  Data :: gomap

definition programData_Id :: "'i programData \<Rightarrow> string" where
  "programData_Id p = Identifier p"

definition programData_GetData :: "'i programData \<Rightarrow> gomap" where
  "programData_GetData p = Data p"

definition programData_IsRunning :: "'i programData \<Rightarrow> world \<Rightarrow> bool go" where
  "programData_IsRunning p w =
     (case Environment p of None \<Rightarrow> Panic | Some e \<Rightarrow> Return (Environment_IsRunning e w))"



definition programData_Stop ::
  "'i programData \<Rightarrow> world \<Rightarrow> (error option \<times> 'i programData \<times> world) go" where
  "programData_Stop p w =
     (case Environment p of
        None \<Rightarrow> Panic
      | Some e \<Rightarrow>
          (case Environment_ExecuteInMainProcess (Stop (RunData p)) e w of
             Panic \<Rightarrow> Panic
           | Return (err, e1, w1) \<Rightarrow>
               Return (err,
                 p\<lparr>Environment := Some (Environment_DisplayToConsole
                      (if err \<noteq> None then ''Failed to stop server\<newline>''
                       else ''Server stopped\<newline>'') e1)\<rparr>,
                 w1)))"

text \<open>
  \<^verbatim>\<open>Install\<close>. The loop \<^verbatim>\<open>for process.HasNext() { err = process.RunNext(); if err != nil
  { ...; break } }\<close>; 493 is the mode 0755.
\<close>

function Install_loop ::
  "InstallProcess \<Rightarrow> Environment \<Rightarrow> world \<Rightarrow> error option \<times> Environment \<times> world" where
  "Install_loop process e w =
     (if HasNext process then
        (case RunNext process e w of
           (err, process1, e1, w1) \<Rightarrow>
             if err \<noteq> None then
               (err, Environment_DisplayToConsole ''Error installing server\<newline>'' e1,
                emit (LogError ''Error running installer: '' err) w1)
             else Install_loop process1 e1 w1)
      else (None, e, w))"
  by pat_completeness auto
termination
  by (relation "measure (\<lambda>(process, e, w). length process)")
     (auto simp: HasNext_def RunNext_def split: list.splits prod.splits)

declare Install_loop.simps [simp del]

definition programData_Install ::
  "('i \<Rightarrow> Environment \<Rightarrow> gomap \<Rightarrow> InstallProcess) \<Rightarrow> 'i programData \<Rightarrow> world
     \<Rightarrow> (error option \<times> 'i programData \<times> world) go" where
  "programData_Install GenerateInstallProcess p w =
     (case programData_IsRunning p w of
        Panic \<Rightarrow> Panic
      | Return running \<Rightarrow>
          (case (if running then programData_Stop p w else Return (None, p, w)) of
             Panic \<Rightarrow> Panic
           | Return (err, p1, w1) \<Rightarrow>
               (case Environment p1 of
                  None \<Rightarrow> Panic
                | Some e1 \<Rightarrow>
                    if err \<noteq> None then
                      Return (err,
                        p1\<lparr>Environment := Some (Environment_DisplayToConsole
                              ''Error stopping server\<newline>'' e1)\<rparr>,
                        emit (LogError ''Error stopping server to install: '' err) w1)
                    else
                      (let e2 = Environment_DisplayToConsole ''Installing server\<newline>'' e1;
                           w2 = emit (MkdirAll (Environment_GetRootDirectory e2) 493) w1;
                           process = GenerateInstallProcess (InstallData p1) e2 (Data p1)
                       in case Install_loop process e2 w2 of
                            (err2, e3, w3) \<Rightarrow>
                              Return (err2,
                                p1\<lparr>Environment := Some (Environment_DisplayToConsole
                                      ''Server installed\<newline>'' e3)\<rparr>,
                                w3)))))"

text \<open>
  \<^verbatim>\<open>Edit\<close>. The argument is the map of overrides in the order the \<^verbatim>\<open>range\<close> visits it. The
  assignment \<^verbatim>\<open>p.Data[k] = v\<close> follows the \<^verbatim>\<open>if\<close> on every iteration; into a nil map it
  panics. The package function \<^verbatim>\<open>Save\<close> is not in the sources: its result is an answer
  of the world.
\<close>

fun Edit_loop :: "(string \<times> iface) list \<Rightarrow> gomap \<Rightarrow> gomap go" where
  "Edit_loop [] d = Return d"
| "Edit_loop ((k, v) # rest) d =
     (case (if v = NilV \<or> v = Str [] then map_option (AList.delete k) d else d) of
        None \<Rightarrow> Panic
      | Some m \<Rightarrow> Edit_loop rest (Some (AList.update k v m)))"

definition programData_Edit ::
  "(string \<times> iface) list \<Rightarrow> 'i programData \<Rightarrow> world \<Rightarrow> (error option \<times> 'i programData \<times> world) go" where
  "programData_Edit data p w =
     (case Edit_loop data (Data p) of
        Panic \<Rightarrow> Panic
      | Return d \<Rightarrow>
          Return (saveResult w (programData_Id p), p\<lparr>Data := d\<rparr>,
                  emit (SaveCall (programData_Id p)) w))"

text \<open>
  \<^verbatim>\<open>Reload\<close>. The argument is the \<^verbatim>\<open>*programData\<close> the type assertion yields; the maps
  are copied by value here, where the Go code shares them.
\<close>

definition programData_Reload :: "'i programData \<Rightarrow> 'i programData \<Rightarrow> 'i programData" where
  "programData_Reload replacement p =
     p\<lparr>Data := Data replacement, InstallData := InstallData replacement,
       RunData := RunData replacement\<rparr>"

text \<open>\<^verbatim>\<open>GetNetwork\<close>; \<open>value_string v\<close> is \<^verbatim>\<open>v.(map[string]interface{})["value"].(string)\<close>.\<close>

definition value_string :: "iface \<Rightarrow> string go" where
  "value_string v =
     (case assert_map v of Panic \<Rightarrow> Panic | Return m \<Rightarrow> assert_string (index m ''value''))"

definition programData_GetNetwork :: "'i programData \<Rightarrow> string go" where
  "programData_GetNetwork p =
     (let data = programData_GetData p;
          ip = ''0.0.0.0'';
          port = ''0'';
          ipData = gomap_index data ''ip''
      in case (if ipData \<noteq> NilV then value_string ipData else Return ip) of
           Panic \<Rightarrow> Panic
         | Return ip1 \<Rightarrow>
             (let portData = gomap_index data ''port''
              in case (if portData \<noteq> NilV then value_string portData else Return port) of
                   Panic \<Rightarrow> Panic
                 | Return port1 \<Rightarrow> Return (ip1 @ '':'' @ port1)))"


section \<open>Vocabulary of the statements\<close>

text \<open>
  \<open>parameter_is d k a\<close>: the parameter \<open>k\<close> is absent from the data \<open>d\<close> (\<open>a = None\<close>), or
  it is a descriptor whose current \<^verbatim>\<open>"value"\<close> is the string \<open>s\<close> (\<open>a = Some s\<close>).
\<close>

fun parameter_is :: "gomap \<Rightarrow> string \<Rightarrow> string option \<Rightarrow> bool" where
  "parameter_is d k None = (case d of None \<Rightarrow> True | Some m \<Rightarrow> map_of m k = None)"
| "parameter_is d k (Some s) =
     (case d of
        None \<Rightarrow> False
      | Some m \<Rightarrow>
          (case map_of m k of
             Some (Obj descriptor) \<Rightarrow> map_of descriptor ''value'' = Some (Str s)
           | _ \<Rightarrow> False))"

text \<open>
  \<open>run_in_order ops e w\<close>: the operations of \<open>ops\<close> run one after the other in list order,
  each on the state the one before it left, and every one of them reports success; the
  result is the state the last one leaves. It is \<open>None\<close> when one of them reports a
  failure.
\<close>

fun run_in_order :: "Operation list \<Rightarrow> Environment \<Rightarrow> world \<Rightarrow> (Environment \<times> world) option" where
  "run_in_order [] e w = Some (e, w)"
| "run_in_order (operation # rest) e w =
     (case operation e w of
        (None, e1, w1) \<Rightarrow> run_in_order rest e1 w1
      | (Some err, e1, w1) \<Rightarrow> None)"



section \<open>Example states\<close>

text \<open>
  A world in which only the pid 4242 is alive, writes to streams succeed, writing a
  file fails, and no new process can be spawned.
\<close>

definition world0 :: world where
  "world0 =
     \<lparr>findProcess = (\<lambda>pid. True), signal0 = (\<lambda>pid. pid = 4242),
      killResult = (\<lambda>pid. None), writeStringResult = (\<lambda>wr s. None),
      writeFileResult = (\<lambda>name content perm. Some (Error ''permission denied'')),
      environ = [''PATH=/usr/bin''], stdinPipe = Inr 3,
      startProcess = (\<lambda>c. Inl (Error ''fork/exec /bin/nope: no such file or directory'')),
      ptyStart = (\<lambda>c. Inl (Error ''fork/exec /bin/nope: no such file or directory'')),
      configGet = (\<lambda>k. []), saveResult = (\<lambda>name. None), trace = []\<rparr>"

text \<open>
  An environment that tracks the live process 4242, the same environment after
  \<^verbatim>\<open>Kill\<close>, and an environment that never started a process.
\<close>

definition running_env :: standard where
  "running_env =
     \<lparr>RootDirectory = ''/srv/a'', ConsoleBuffer = [], WSManager = [],
      mainProcess = Some ((exec_Command ''java'' [''-jar'', ''server.jar''])\<lparr>Process := Some 4242\<rparr>),
      stdInWriter = Some (PipeWriter 3), wait = 1\<rparr>"

definition killed_env :: standard where
  "killed_env = running_env\<lparr>mainProcess := None\<rparr>"

definition fresh_env :: standard where
  "fresh_env =
     \<lparr>RootDirectory = ''/srv/a'', ConsoleBuffer = [], WSManager = [],
      mainProcess = None, stdInWriter = None, wait = 0\<rparr>"

definition runtime1 :: Runtime where
  "runtime1 =
     \<lparr>Stop = ''stop'', Pre = [], Post = [], Program = ''/bin/nope'',
      Arguments = [''-jar'', ''server.jar''], Enabled = True, AutoStart = False\<rparr>"

text \<open>
  \<open>program1\<close> is bound to the fresh environment, \<open>program2\<close> to the running one.
\<close>

definition program1 :: "unit programData" where
  "program1 =
     \<lparr>RunData = runtime1, InstallData = (), Environment = Some (StandardEnv fresh_env),
      Identifier = ''server1'',
      Data = Some [(''port'', Obj [(''value'', Str ''25565'')])]\<rparr>"


text \<open>
  \<open>program3\<close> is \<open>program1\<close> with the port held as a JSON number, as the migration of
  legacy servers supplies it (\<^verbatim>\<open>Gameport int\<close>).
\<close>

definition program3 :: "unit programData" where
  "program3 = program1\<lparr>Data := Some [(''port'', Obj [(''value'', Num 25565)])]\<rparr>"






text \<open>
  A pipeline of three steps: a file write, a step that fails, a file write.
\<close>

definition JoinPath1 :: "string \<Rightarrow> string \<Rightarrow> string" where
  "JoinPath1 a b = a @ ''/'' @ b"




section \<open>Basic facts\<close>

lemma Itoa_4242: "Itoa 4242 = ''4242''"
  by (simp add: Itoa_def)

lemma standard_IsRunning_handles:
  "standard_IsRunning s w \<Longrightarrow> \<exists>c pid. mainProcess s = Some c \<and> Process c = Some pid"
  by (auto simp: standard_IsRunning_def split: option.splits)

lemma tty_IsRunning_handles:
  "tty_IsRunning s w \<Longrightarrow> \<exists>c pid. mainProcess s = Some c \<and> Process c = Some pid"
  by (auto simp: tty_IsRunning_def split: option.splits)

lemma standard_IsRunning_emit [simp]: "standard_IsRunning s (emit ev w) = standard_IsRunning s w"
  by (simp add: standard_IsRunning_def emit_def split: option.splits)

lemma tty_IsRunning_emit [simp]: "tty_IsRunning s (emit ev w) = tty_IsRunning s w"
  by (simp add: tty_IsRunning_def emit_def split: option.splits)

lemma Environment_IsRunning_emit [simp]:
  "Environment_IsRunning e (emit ev w) = Environment_IsRunning e w"
  by (cases e) simp_all

lemma Environment_IsRunning_DisplayToConsole [simp]:
  "Environment_IsRunning (Environment_DisplayToConsole msg e) w = Environment_IsRunning e w"
  by (cases e)
     (simp_all add: standard_IsRunning_def tty_IsRunning_def standard_DisplayToConsole_def
        tty_DisplayToConsole_def)

lemma Environment_handles_DisplayToConsole [simp]:
  "Environment_mainProcess (Environment_DisplayToConsole msg e) = Environment_mainProcess e"
  "Environment_stdInWriter (Environment_DisplayToConsole msg e) = Environment_stdInWriter e"
  by (cases e; simp add: standard_DisplayToConsole_def tty_DisplayToConsole_def)+


lemma running_env_running:
  "standard_IsRunning running_env world0" "tty_IsRunning running_env world0"
  by (simp_all add: standard_IsRunning_def tty_IsRunning_def running_env_def world0_def)

lemma killed_env_not_running:
  "\<not> standard_IsRunning killed_env w" "\<not> tty_IsRunning killed_env w"
  by (simp_all add: standard_IsRunning_def tty_IsRunning_def killed_env_def)


lemma running_env_pid:
  "mainProcess running_env = Some c \<Longrightarrow> Process c = Some pid \<Longrightarrow> pid = 4242"
  by (auto simp: running_env_def)


section \<open>ExecuteAsync while a process is running\<close>

text \<open>
  Claim C3. In either environment, when \<^verbatim>\<open>IsRunning()\<close> holds, \<^verbatim>\<open>ExecuteAsync\<close> returns
  the error "A process is already running (pid)", where pid is the pid of the tracked
  process, and leaves the environment (the process handle and every other field) and
  the outside world as they were.
\<close>

theorem ExecuteAsync_AlreadyRunning:
  "(standard_IsRunning s w \<longrightarrow>
      (\<exists>c pid. mainProcess s = Some c \<and> Process c = Some pid \<and>
         standard_ExecuteAsync cmd args s w =
           Return (Some (Error (''A process is already running ('' @ Itoa pid @ '')'')), s, w))) \<and>
   (tty_IsRunning t w \<longrightarrow>
      (\<exists>c pid. mainProcess t = Some c \<and> Process c = Some pid \<and>
         tty_ExecuteAsync cmd args t w =
           Return (Some (Error (''A process is already running ('' @ Itoa pid @ '')'')), t, w)))"
proof (intro conjI impI)
  assume r: "standard_IsRunning s w"
  then obtain c pid where "mainProcess s = Some c" "Process c = Some pid"
    using standard_IsRunning_handles by blast
  with r show "\<exists>c pid. mainProcess s = Some c \<and> Process c = Some pid \<and>
         standard_ExecuteAsync cmd args s w =
           Return (Some (Error (''A process is already running ('' @ Itoa pid @ '')'')), s, w)"
    by (simp add: standard_ExecuteAsync_def)
next
  assume r: "tty_IsRunning t w"
  then obtain c pid where "mainProcess t = Some c" "Process c = Some pid"
    using tty_IsRunning_handles by blast
  with r show "\<exists>c pid. mainProcess t = Some c \<and> Process c = Some pid \<and>
         tty_ExecuteAsync cmd args t w =
           Return (Some (Error (''A process is already running ('' @ Itoa pid @ '')'')), t, w)"
    by (simp add: tty_ExecuteAsync_def)
qed

text \<open>The running example environment refuses a second start and names the pid 4242.\<close>

theorem ExecuteAsync_AlreadyRunning_witness:
  "standard_IsRunning running_env world0 \<and>
   standard_ExecuteAsync ''java'' [] running_env world0 =
     Return (Some (Error ''A process is already running (4242)''), running_env, world0) \<and>
   tty_IsRunning running_env world0 \<and>
   tty_ExecuteAsync ''java'' [] running_env world0 =
     Return (Some (Error ''A process is already running (4242)''), running_env, world0)"
proof -
  have h: "mainProcess running_env = Some c \<Longrightarrow> Process c = Some pid \<Longrightarrow> Itoa pid = ''4242''"
    for c pid
    using Itoa_4242 running_env_pid by blast
  note inst = ExecuteAsync_AlreadyRunning [of running_env world0 "''java''" "[]" running_env]
  from inst running_env_running obtain c pid where a: "mainProcess running_env = Some c"
      "Process c = Some pid"
      "standard_ExecuteAsync ''java'' [] running_env world0 =
         Return (Some (Error (''A process is already running ('' @ Itoa pid @ '')'')),
                 running_env, world0)"
    by blast
  from inst running_env_running obtain c' pid' where b: "mainProcess running_env = Some c'"
      "Process c' = Some pid'"
      "tty_ExecuteAsync ''java'' [] running_env world0 =
         Return (Some (Error (''A process is already running ('' @ Itoa pid' @ '')'')),
                 running_env, world0)"
    by blast
  from a b h [OF a(1) a(2)] h [OF b(1) b(2)] running_env_running show ?thesis by simp
qed


section \<open>Input to the main process\<close>

text \<open>
  Claim C5, as amended. In either environment, when \<^verbatim>\<open>IsRunning()\<close> is false,
  \<^verbatim>\<open>ExecuteInMainProcess\<close> returns the error "Main process has not been started"
  and writes nothing, whether or not an input stream was established earlier. When
  \<^verbatim>\<open>IsRunning()\<close> is true and the input-stream handle is set, it writes the text followed
  by a carriage return to that stream and returns the result of the write.
\<close>

theorem ExecuteInMainProcess_contract:
  "(\<not> standard_IsRunning s w \<longrightarrow>
      standard_ExecuteInMainProcess cmd s w =
        Return (Some (Error ''Main process has not been started''), s, w)) \<and>
   (standard_IsRunning s w \<and> stdInWriter s = Some stdIn \<longrightarrow>
      standard_ExecuteInMainProcess cmd s w =
        Return (writeStringResult w stdIn (cmd @ [CHR 0x0D]), s,
                emit (WriteString stdIn (cmd @ [CHR 0x0D])) w)) \<and>
   (\<not> tty_IsRunning t w \<longrightarrow>
      tty_ExecuteInMainProcess cmd t w =
        Return (Some (Error ''Main process has not been started''), t, w)) \<and>
   (tty_IsRunning t w \<and> stdInWriter t = Some ttyIn \<longrightarrow>
      tty_ExecuteInMainProcess cmd t w =
        Return (writeStringResult w ttyIn (cmd @ [CHR 0x0D]), t,
                emit (WriteString ttyIn (cmd @ [CHR 0x0D])) w))"
  by (simp add: standard_ExecuteInMainProcess_def tty_ExecuteInMainProcess_def)

theorem ExecuteInMainProcess_contract_witness:
  "\<not> standard_IsRunning killed_env world0 \<and>
   standard_ExecuteInMainProcess ''stop'' killed_env world0 =
     Return (Some (Error ''Main process has not been started''), killed_env, world0) \<and>
   standard_IsRunning running_env world0 \<and> stdInWriter running_env = Some (PipeWriter 3) \<and>
   standard_ExecuteInMainProcess ''stop'' running_env world0 =
     Return (None, running_env, emit (WriteString (PipeWriter 3) (''stop'' @ [CHR 0x0D])) world0) \<and>
   \<not> tty_IsRunning killed_env world0 \<and>
   tty_ExecuteInMainProcess ''stop'' killed_env world0 =
     Return (Some (Error ''Main process has not been started''), killed_env, world0) \<and>
   tty_IsRunning running_env world0 \<and>
   tty_ExecuteInMainProcess ''stop'' running_env world0 =
     Return (None, running_env, emit (WriteString (PipeWriter 3) (''stop'' @ [CHR 0x0D])) world0)"
proof -
  have s: "stdInWriter running_env = Some (PipeWriter 3)"
    by (simp add: running_env_def)
  have k: "writeStringResult world0 wr line = None" for wr line
    by (simp add: world0_def)
  from ExecuteInMainProcess_contract
         [of killed_env world0 "''stop''" "PipeWriter 3" killed_env "PipeWriter 3"]
    ExecuteInMainProcess_contract
         [of running_env world0 "''stop''" "PipeWriter 3" running_env "PipeWriter 3"]
    killed_env_not_running [of world0] running_env_running s k
  show ?thesis by simp
qed

text \<open>
  Claim C5 as first stated fails: after \<^verbatim>\<open>Kill\<close> of the running example environment the
  input stream of the killed process is still held, and \<^verbatim>\<open>ExecuteInMainProcess\<close> answers
  "Main process has not been started".
\<close>

theorem ExecuteInMainProcess_stream_counterexample:
  "standard_Kill running_env world0 =
     Return (None, killed_env, emit (ProcessRelease 4242) (emit (ProcessKill 4242) world0)) \<and>
   stdInWriter killed_env = Some (PipeWriter 3) \<and>
   standard_ExecuteInMainProcess ''stop'' killed_env world0 =
     Return (Some (Error ''Main process has not been started''), killed_env, world0)"
  by (simp add: standard_Kill_def standard_ExecuteInMainProcess_def running_env_running
      killed_env_not_running)
     (simp add: killed_env_def running_env_def world0_def exec_Command_def)


section \<open>Kill\<close>

text \<open>
  Claim C6. In either environment, when \<^verbatim>\<open>IsRunning()\<close> is false \<^verbatim>\<open>Kill\<close> returns no
  error and changes neither the environment nor the outside world. When \<^verbatim>\<open>IsRunning()\<close>
  is true it sends the kill signal to the tracked pid, then releases the process, and
  the process handle is nil afterwards; every other field is as before, and the result
  is the result of sending the signal.
\<close>

theorem Kill_contract:
  "(\<not> standard_IsRunning s w \<longrightarrow> standard_Kill s w = Return (None, s, w)) \<and>
   (standard_IsRunning s w \<longrightarrow>
      (\<exists>c pid. mainProcess s = Some c \<and> Process c = Some pid \<and>
         standard_Kill s w =
           Return (killResult w pid, s\<lparr>mainProcess := None\<rparr>,
                   emit (ProcessRelease pid) (emit (ProcessKill pid) w)))) \<and>
   (\<not> tty_IsRunning t w \<longrightarrow> tty_Kill t w = Return (None, t, w)) \<and>
   (tty_IsRunning t w \<longrightarrow>
      (\<exists>c pid. mainProcess t = Some c \<and> Process c = Some pid \<and>
         tty_Kill t w =
           Return (killResult w pid, t\<lparr>mainProcess := None\<rparr>,
                   emit (ProcessRelease pid) (emit (ProcessKill pid) w))))"
proof (intro conjI impI)
  assume "\<not> standard_IsRunning s w"
  then show "standard_Kill s w = Return (None, s, w)"
    by (simp add: standard_Kill_def)
next
  assume r: "standard_IsRunning s w"
  then obtain c pid where "mainProcess s = Some c" "Process c = Some pid"
    using standard_IsRunning_handles by blast
  with r show "\<exists>c pid. mainProcess s = Some c \<and> Process c = Some pid \<and>
         standard_Kill s w =
           Return (killResult w pid, s\<lparr>mainProcess := None\<rparr>,
                   emit (ProcessRelease pid) (emit (ProcessKill pid) w))"
    by (simp add: standard_Kill_def)
next
  assume "\<not> tty_IsRunning t w"
  then show "tty_Kill t w = Return (None, t, w)"
    by (simp add: tty_Kill_def)
next
  assume r: "tty_IsRunning t w"
  then obtain c pid where "mainProcess t = Some c" "Process c = Some pid"
    using tty_IsRunning_handles by blast
  with r show "\<exists>c pid. mainProcess t = Some c \<and> Process c = Some pid \<and>
         tty_Kill t w =
           Return (killResult w pid, t\<lparr>mainProcess := None\<rparr>,
                   emit (ProcessRelease pid) (emit (ProcessKill pid) w))"
    by (simp add: tty_Kill_def)
qed

theorem Kill_contract_witness:
  "\<not> standard_IsRunning killed_env world0 \<and>
   standard_Kill killed_env world0 = Return (None, killed_env, world0) \<and>
   standard_IsRunning running_env world0 \<and>
   standard_Kill running_env world0 =
     Return (None, killed_env, emit (ProcessRelease 4242) (emit (ProcessKill 4242) world0)) \<and>
   mainProcess killed_env = None \<and>
   \<not> tty_IsRunning killed_env world0 \<and>
   tty_Kill killed_env world0 = Return (None, killed_env, world0) \<and>
   tty_IsRunning running_env world0 \<and>
   tty_Kill running_env world0 =
     Return (None, killed_env, emit (ProcessRelease 4242) (emit (ProcessKill 4242) world0))"
proof -
  note stopped = Kill_contract [of killed_env world0 killed_env]
  note live = Kill_contract [of running_env world0 running_env]
  have k: "killResult world0 pid = None" for pid
    by (simp add: world0_def)
  from live running_env_running obtain c pid where a: "mainProcess running_env = Some c"
      "Process c = Some pid"
      "standard_Kill running_env world0 =
         Return (killResult world0 pid, running_env\<lparr>mainProcess := None\<rparr>,
                 emit (ProcessRelease pid) (emit (ProcessKill pid) world0))"
    by blast
  from live running_env_running obtain c' pid' where b: "mainProcess running_env = Some c'"
      "Process c' = Some pid'"
      "tty_Kill running_env world0 =
         Return (killResult world0 pid', running_env\<lparr>mainProcess := None\<rparr>,
                 emit (ProcessRelease pid') (emit (ProcessKill pid') world0))"
    by blast
  from a b running_env_pid [OF a(1) a(2)] running_env_pid [OF b(1) b(2)]
    stopped killed_env_not_running [of world0] running_env_running k
  show ?thesis by (simp add: killed_env_def)
qed


section \<open>The file-write operation\<close>

text \<open>
  Claim C9. For every target path and text, in every environment and whatever the
  file system answers, \<^verbatim>\<open>WriteFile.Run\<close> returns nil: it asks for the write once and
  drops the result, so a write that failed is not reported to the caller.
\<close>

theorem WriteFile_Run_returns_nil:
  "WriteFile_Run JoinPath c e w =
     (None, e,
      emit (WriteFileCall (JoinPath (Environment_GetRootDirectory e) (TargetFile c)) (Text c) 420) w)"
  by (simp add: WriteFile_Run_def)

text \<open>In \<open>world0\<close> the write fails with "permission denied" and \<^verbatim>\<open>Run\<close> still returns nil.\<close>

theorem WriteFile_Run_returns_nil_witness:
  "writeFileResult world0 ''/srv/a/eula.txt'' ''eula=true'' 420 = Some (Error ''permission denied'') \<and>
   WriteFile_Run JoinPath1 \<lparr>TargetFile = ''eula.txt'', Text = ''eula=true''\<rparr>
       (StandardEnv fresh_env) world0 =
     (None, StandardEnv fresh_env,
      emit (WriteFileCall ''/srv/a/eula.txt'' ''eula=true'' 420) world0)"
  using WriteFile_Run_returns_nil
          [of JoinPath1 "\<lparr>TargetFile = ''eula.txt'', Text = ''eula=true''\<rparr>"
              "StandardEnv fresh_env" world0]
  by (simp add: JoinPath1_def standard_GetRootDirectory_def fresh_env_def world0_def)


section \<open>Reload\<close>

text \<open>
  Claim C10. \<^verbatim>\<open>Reload\<close> takes the data, the install section and the run data from the
  replacement and leaves the identifier and the bound environment of the program as
  they were.
\<close>

theorem Reload_frame:
  "Identifier (programData_Reload d p) = Identifier p \<and>
   Environment (programData_Reload d p) = Environment p \<and>
   Data (programData_Reload d p) = Data d \<and>
   InstallData (programData_Reload d p) = InstallData d \<and>
   RunData (programData_Reload d p) = RunData d"
  by (simp add: programData_Reload_def)


section \<open>GetNetwork\<close>

lemma GetNetwork_part:
  "parameter_is d k a \<Longrightarrow>
   (if gomap_index d k \<noteq> NilV then value_string (gomap_index d k) else Return dflt) =
     Return (case a of None \<Rightarrow> dflt | Some s \<Rightarrow> s)"
  by (cases a; cases d)
     (auto simp: gomap_index_def index_def value_string_def assert_map_def assert_string_def
           split: option.splits iface.splits)

text \<open>
  Claim C8, as amended. For every program in whose data each of the parameters "ip"
  and "port" is either absent or a descriptor with a string as its current value
  (a nil data map has both absent), \<^verbatim>\<open>GetNetwork\<close> returns the address,
  a colon and the port, where the address is the value of "ip", or "0.0.0.0" when "ip"
  is absent, and the port is the value of "port", or "0" when "port" is absent.
\<close>

theorem GetNetwork_address_port:
  assumes "parameter_is (Data p) ''ip'' a" and "parameter_is (Data p) ''port'' b"
  shows "programData_GetNetwork p =
           Return ((case a of None \<Rightarrow> ''0.0.0.0'' | Some s \<Rightarrow> s) @ '':'' @
                   (case b of None \<Rightarrow> ''0'' | Some s \<Rightarrow> s))"
  using GetNetwork_part [OF assms(1), of "''0.0.0.0''"] GetNetwork_part [OF assms(2), of "''0''"]
  by (simp add: programData_GetNetwork_def programData_GetData_def)

text \<open>\<open>program1\<close> has a port and no ip.\<close>

theorem GetNetwork_address_port_witness:
  "parameter_is (Data program1) ''ip'' None \<and>
   parameter_is (Data program1) ''port'' (Some ''25565'') \<and>
   programData_GetNetwork program1 = Return ''0.0.0.0:25565''"
proof -
  have a: "parameter_is (Data program1) ''ip'' None"
    by (simp add: program1_def)
  have b: "parameter_is (Data program1) ''port'' (Some ''25565'')"
    by (simp add: program1_def)
  from a b GetNetwork_address_port [OF a b] show ?thesis by simp
qed

text \<open>
  Claim C8 as first stated, for every program, fails: in \<open>program3\<close> the parameter
  "port" is present as a descriptor whose current value is the number 25565, and
  \<^verbatim>\<open>GetNetwork\<close> ends in the panic of the type assertion \<^verbatim>\<open>.(string)\<close> and returns no
  string.
\<close>

theorem GetNetwork_numeric_port_counterexample:
  "gomap_index (programData_GetData program3) ''port'' = Obj [(''value'', Num 25565)] \<and>
   programData_GetNetwork program3 = Panic"
  by (simp add: programData_GetNetwork_def programData_GetData_def program3_def program1_def
      gomap_index_def index_def value_string_def assert_map_def assert_string_def)


section \<open>Edit\<close>

text \<open>
  The loop of \<^verbatim>\<open>Edit\<close> stores every supplied value, the empty ones too: after the loop
  each supplied key is present with the value that was supplied, and the keys that
  were not supplied are as before.
\<close>

lemma Edit_loop_stores_all:
  "distinct (map fst data) \<Longrightarrow>
   \<exists>m'. Edit_loop data (Some m) = Return (Some m') \<and>
        (\<forall>k. map_of m' k = (case map_of data k of None \<Rightarrow> map_of m k | Some v \<Rightarrow> Some v))"
proof (induction data arbitrary: m)
  case Nil
  then show ?case by simp
next
  case (Cons kv rest)
  obtain k v where kv: "kv = (k, v)" by (cases kv)
  define m1 where "m1 = AList.update k v (if v = NilV \<or> v = Str [] then AList.delete k m else m)"
  from Cons.prems kv have d: "distinct (map fst rest)" and nk: "map_of rest k = None"
    by (auto simp: map_of_eq_None_iff)
  from Cons.IH [OF d, of m1] obtain m' where
      r: "Edit_loop rest (Some m1) = Return (Some m')"
      and l: "\<forall>k'. map_of m' k' = (case map_of rest k' of None \<Rightarrow> map_of m1 k' | Some v' \<Rightarrow> Some v')"
    by blast
  have step: "Edit_loop (kv # rest) (Some m) = Edit_loop rest (Some m1)"
    by (simp add: kv m1_def)
  have "map_of m' k' = (case map_of (kv # rest) k' of None \<Rightarrow> map_of m k' | Some v' \<Rightarrow> Some v')"
    for k'
    using l nk by (auto simp: kv m1_def update_conv delete_conv split: option.splits)
  with step r show ?case by simp
qed

text \<open>
  Claim C1 at the input of the spec's own example. \<^verbatim>\<open>Edit\<close> with the override "port" set
  to the empty string, on data that holds "port": the key is still present afterwards,
  now with the empty string as its entry, and \<^verbatim>\<open>GetNetwork\<close> on the result panics.
\<close>

theorem Edit_empty_value_keeps_key:
  "programData_Edit [(''port'', Str [])] program1 world0 =
     Return (None, program1\<lparr>Data := Some [(''port'', Str [])]\<rparr>, emit (SaveCall ''server1'') world0) \<and>
   map_of [(''port'', Str [])] ''port'' = Some (Str []) \<and>
   programData_GetNetwork (program1\<lparr>Data := Some [(''port'', Str [])]\<rparr>) = Panic"
  by (simp add: programData_Edit_def programData_Id_def program1_def world0_def
      programData_GetNetwork_def programData_GetData_def gomap_index_def index_def
      value_string_def assert_map_def)


section \<open>Install\<close>

lemma Install_loop_Nil: "Install_loop [] e w = (None, e, w)"
  by (simp add: Install_loop.simps HasNext_def)

lemma Install_loop_Cons:
  "Install_loop (operation # rest) e w =
     (case operation e w of
        (None, e1, w1) \<Rightarrow> Install_loop rest e1 w1
      | (Some err, e1, w1) \<Rightarrow>
          (Some err, Environment_DisplayToConsole ''Error installing server\<newline>'' e1,
           emit (LogError ''Error running installer: '' (Some err)) w1))"
  by (subst Install_loop.simps) (simp add: HasNext_def RunNext_def split: prod.splits option.splits)

lemma Install_loop_all_succeed:
  "run_in_order ops e w = Some (e1, w1) \<Longrightarrow> Install_loop ops e w = (None, e1, w1)"
  by (induction ops arbitrary: e w)
     (simp_all add: Install_loop_Nil Install_loop_Cons split: prod.splits option.splits)

lemma Install_all_succeed:
  assumes "Environment p = Some e"
    and "(if Environment_IsRunning e w then programData_Stop p w else Return (None, p, w)) =
           Return (None, p1, w1)"
    and "Environment p1 = Some e1"
    and "e0 = Environment_DisplayToConsole ''Installing server\<newline>'' e1"
    and "w0 = emit (MkdirAll (Environment_GetRootDirectory e0) 493) w1"
    and "run_in_order (GenerateInstallProcess (InstallData p1) e0 (Data p1)) e0 w0 = Some (e2, w2)"
  shows "programData_Install GenerateInstallProcess p w =
           Return (None,
             p1\<lparr>Environment := Some (Environment_DisplayToConsole ''Server installed\<newline>'' e2)\<rparr>,
             w2)"
  unfolding programData_Install_def programData_IsRunning_def
  using assms(1-5) Install_loop_all_succeed [OF assms(6)] by (simp add: Let_def)





section \<open>A failed Start\<close>









end
